theory Spec2Isabelle
  imports Complex_Main
begin

section \<open>Errors\<close>

text \<open>
  The exceptions that the modelled part of \<^verbatim>\<open>app.py\<close> can raise. Nothing in the file
  catches an exception, so each of them reaches the caller of the function that raised it.
  \<open>StoreError\<close> stands for whatever the database driver raises when a fetch fails, and
  \<open>EngineError\<close> for a failure of the imported recommendation function.
\<close>

datatype error =
    FileNotFoundError
  | IndexError
  | ValueError
  | KeyError
  | EmptyDataError
  | StoreError
  | EngineError

section \<open>Naive date-times (\<^verbatim>\<open>datetime\<close>)\<close>

record datetime =
  year :: nat
  month :: nat
  day :: nat
  hour :: nat
  minute :: nat
  second :: nat
  microsecond :: nat

definition is_leap :: "nat \<Rightarrow> bool" where
  "is_leap y = (y mod 4 = 0 \<and> (y mod 100 \<noteq> 0 \<or> y mod 400 = 0))"

definition days_in_month :: "nat \<Rightarrow> nat \<Rightarrow> nat" where
  "days_in_month y m =
     (if m = 2 \<and> is_leap y then 29
      else [0, 31, 28, 31, 30, 31, 30, 31, 31, 30, 31, 30, 31] ! m)"

text \<open>The range checks of the \<^verbatim>\<open>datetime\<close> constructor (\<^verbatim>\<open>MINYEAR = 1\<close>, \<^verbatim>\<open>MAXYEAR = 9999\<close>).\<close>

definition valid_datetime :: "datetime \<Rightarrow> bool" where
  "valid_datetime d =
     (1 \<le> year d \<and> year d \<le> 9999 \<and> 1 \<le> month d \<and> month d \<le> 12 \<and>
      1 \<le> day d \<and> day d \<le> days_in_month (year d) (month d) \<and>
      hour d < 24 \<and> minute d < 60 \<and> second d < 60 \<and> microsecond d < 1000000)"

definition days_before_year :: "nat \<Rightarrow> int" where
  "days_before_year y =
     (let y' = int y - 1 in y' * 365 + y' div 4 - y' div 100 + y' div 400)"

definition days_before_month :: "nat \<Rightarrow> nat \<Rightarrow> int" where
  "days_before_month y m =
     [0, 0, 31, 59, 90, 120, 151, 181, 212, 243, 273, 304, 334] ! m
       + (if m > 2 \<and> is_leap y then 1 else 0)"

definition toordinal :: "datetime \<Rightarrow> int" where
  "toordinal d = days_before_year (year d) + days_before_month (year d) (month d) + int (day d)"

text \<open>
  A \<^verbatim>\<open>timedelta\<close> is kept as its total number of microseconds: Python normalises the
  triple (days, seconds, microseconds) and compares the normalised triples
  lexicographically, which is the order of the totals.
\<close>

type_synonym timedelta = int

definition timedelta_of :: "int \<Rightarrow> int \<Rightarrow> int \<Rightarrow> timedelta" where
  "timedelta_of days secs us = (days * 86400 + secs) * 1000000 + us"

definition timedelta_hours :: "int \<Rightarrow> timedelta" where
  "timedelta_hours h = timedelta_of 0 (h * 3600) 0"

definition day_seconds :: "datetime \<Rightarrow> int" where
  "day_seconds d = int (second d) + int (minute d) * 60 + int (hour d) * 3600"

text \<open>\<^verbatim>\<open>datetime.__sub__\<close> on two naive values.\<close>

definition datetime_sub :: "datetime \<Rightarrow> datetime \<Rightarrow> timedelta" where
  "datetime_sub a b =
     timedelta_of (toordinal a - toordinal b) (day_seconds a - day_seconds b)
       (int (microsecond a) - int (microsecond b))"

section \<open>Formatting and parsing with \<^verbatim>\<open>%d/%m/%Y %H:%M:%S\<close>\<close>

text \<open>Characters are ASCII; a digit is one of \<^verbatim>\<open>0\<close> to \<^verbatim>\<open>9\<close>.\<close>

definition digit_char :: "nat \<Rightarrow> char" where
  "digit_char n = char_of (48 + n)"

definition in_range :: "char \<Rightarrow> char \<Rightarrow> char \<Rightarrow> bool" where
  "in_range lo hi c = ((of_char lo :: nat) \<le> of_char c \<and> (of_char c :: nat) \<le> of_char hi)"

definition is_digit :: "char \<Rightarrow> bool" where
  "is_digit c = in_range (CHR ''0'') (CHR ''9'') c"

definition digit_val :: "char \<Rightarrow> nat" where
  "digit_val c = of_char c - 48"

text \<open>\<^verbatim>\<open>\s\<close>: tab, line feed, vertical tab, form feed, carriage return, the four
  separators \<^verbatim>\<open>\x1c\<close> to \<^verbatim>\<open>\x1f\<close>, and the space.\<close>

definition is_space :: "char \<Rightarrow> bool" where
  "is_space c = (let n = (of_char c :: nat) in (9 \<le> n \<and> n \<le> 13) \<or> (28 \<le> n \<and> n \<le> 32))"

definition pad2 :: "nat \<Rightarrow> string" where
  "pad2 n = [digit_char (n div 10 mod 10), digit_char (n mod 10)]"

text \<open>The decimal numeral of a number, without padding (the C library's \<^verbatim>\<open>%Y\<close> on Linux).\<close>

fun dec :: "nat \<Rightarrow> string" where
  "dec n = (if n < 10 then [digit_char n] else dec (n div 10) @ [digit_char (n mod 10)])"

declare dec.simps [simp del]

definition strftime :: "datetime \<Rightarrow> string" where
  "strftime d =
     pad2 (day d) @ ''/'' @ pad2 (month d) @ ''/'' @ dec (year d) @ '' '' @
     pad2 (hour d) @ '':'' @ pad2 (minute d) @ '':'' @ pad2 (second d)"

text \<open>
  \<^verbatim>\<open>strptime\<close> compiles the format to the regular expression
  \<^verbatim>\<open>(3[0-1]|[1-2]\d|0[1-9]|[1-9]| [1-9])/(1[0-2]|0[1-9]|[1-9])/(\d\d\d\d)\s+(2[0-3]|[0-1]\d|\d):([0-5]\d|\d):(6[0-1]|[0-5]\d|\d)\<close>
  and matches it at the start of the text. Every group but the last is followed by a
  character that is no digit, so the first alternative that matches is the only one
  that can lead to a match of the whole expression; each group below tries the
  alternatives in their order and returns the number read and the rest of the text.
\<close>

definition re_d :: "string \<Rightarrow> (nat \<times> string) option" where
  "re_d s = (case s of
      a # b # r \<Rightarrow>
        if a = CHR ''3'' \<and> in_range (CHR ''0'') (CHR ''1'') b then Some (30 + digit_val b, r)
        else if in_range (CHR ''1'') (CHR ''2'') a \<and> is_digit b
          then Some (10 * digit_val a + digit_val b, r)
        else if a = CHR ''0'' \<and> in_range (CHR ''1'') (CHR ''9'') b then Some (digit_val b, r)
        else if in_range (CHR ''1'') (CHR ''9'') a then Some (digit_val a, b # r)
        else if a = CHR '' '' \<and> in_range (CHR ''1'') (CHR ''9'') b then Some (digit_val b, r)
        else None
    | [a] \<Rightarrow> if in_range (CHR ''1'') (CHR ''9'') a then Some (digit_val a, []) else None
    | [] \<Rightarrow> None)"

definition re_m :: "string \<Rightarrow> (nat \<times> string) option" where
  "re_m s = (case s of
      a # b # r \<Rightarrow>
        if a = CHR ''1'' \<and> in_range (CHR ''0'') (CHR ''2'') b then Some (10 + digit_val b, r)
        else if a = CHR ''0'' \<and> in_range (CHR ''1'') (CHR ''9'') b then Some (digit_val b, r)
        else if in_range (CHR ''1'') (CHR ''9'') a then Some (digit_val a, b # r)
        else None
    | [a] \<Rightarrow> if in_range (CHR ''1'') (CHR ''9'') a then Some (digit_val a, []) else None
    | [] \<Rightarrow> None)"

definition re_Y :: "string \<Rightarrow> (nat \<times> string) option" where
  "re_Y s = (case s of
      a # b # c # d # r \<Rightarrow>
        if is_digit a \<and> is_digit b \<and> is_digit c \<and> is_digit d
        then Some (1000 * digit_val a + 100 * digit_val b + 10 * digit_val c + digit_val d, r)
        else None
    | _ \<Rightarrow> None)"

definition re_H :: "string \<Rightarrow> (nat \<times> string) option" where
  "re_H s = (case s of
      a # b # r \<Rightarrow>
        if a = CHR ''2'' \<and> in_range (CHR ''0'') (CHR ''3'') b then Some (20 + digit_val b, r)
        else if in_range (CHR ''0'') (CHR ''1'') a \<and> is_digit b
          then Some (10 * digit_val a + digit_val b, r)
        else if is_digit a then Some (digit_val a, b # r)
        else None
    | [a] \<Rightarrow> if is_digit a then Some (digit_val a, []) else None
    | [] \<Rightarrow> None)"

definition re_M :: "string \<Rightarrow> (nat \<times> string) option" where
  "re_M s = (case s of
      a # b # r \<Rightarrow>
        if in_range (CHR ''0'') (CHR ''5'') a \<and> is_digit b
          then Some (10 * digit_val a + digit_val b, r)
        else if is_digit a then Some (digit_val a, b # r)
        else None
    | [a] \<Rightarrow> if is_digit a then Some (digit_val a, []) else None
    | [] \<Rightarrow> None)"

definition re_S :: "string \<Rightarrow> (nat \<times> string) option" where
  "re_S s = (case s of
      a # b # r \<Rightarrow>
        if a = CHR ''6'' \<and> in_range (CHR ''0'') (CHR ''1'') b then Some (60 + digit_val b, r)
        else if in_range (CHR ''0'') (CHR ''5'') a \<and> is_digit b
          then Some (10 * digit_val a + digit_val b, r)
        else if is_digit a then Some (digit_val a, b # r)
        else None
    | [a] \<Rightarrow> if is_digit a then Some (digit_val a, []) else None
    | [] \<Rightarrow> None)"

definition re_lit :: "char \<Rightarrow> string \<Rightarrow> string option" where
  "re_lit c s = (case s of a # r \<Rightarrow> if a = c then Some r else None | [] \<Rightarrow> None)"

text \<open>\<^verbatim>\<open>\s+\<close>: one or more white-space characters, as many as there are.\<close>

definition re_spaces :: "string \<Rightarrow> string option" where
  "re_spaces s = (case s of
      a # r \<Rightarrow> if is_space a then Some (dropWhile is_space r) else None
    | [] \<Rightarrow> None)"

text \<open>The match of the whole expression: the six numbers read and the unmatched rest.\<close>

definition format_regex_match :: "string \<Rightarrow> (datetime \<times> string) option" where
  "format_regex_match s =
     Option.bind (re_d s) (\<lambda>(dd, s1).
     Option.bind (re_lit (CHR ''/'') s1) (\<lambda>s2.
     Option.bind (re_m s2) (\<lambda>(mm, s3).
     Option.bind (re_lit (CHR ''/'') s3) (\<lambda>s4.
     Option.bind (re_Y s4) (\<lambda>(yy, s5).
     Option.bind (re_spaces s5) (\<lambda>s6.
     Option.bind (re_H s6) (\<lambda>(hh, s7).
     Option.bind (re_lit (CHR '':'') s7) (\<lambda>s8.
     Option.bind (re_M s8) (\<lambda>(mi, s9).
     Option.bind (re_lit (CHR '':'') s9) (\<lambda>s10.
     Option.bind (re_S s10) (\<lambda>(ss, s11).
     Some (\<lparr>year = yy, month = mm, day = dd, hour = hh, minute = mi, second = ss,
             microsecond = 0\<rparr>, s11))))))))))))"

text \<open>
  \<^verbatim>\<open>datetime.strptime(text, "%d/%m/%Y %H:%M:%S")\<close>: no match, text left over after the
  match ("unconverted data remains"), or numbers that are no date-time, all raise
  \<^verbatim>\<open>ValueError\<close>.
\<close>

definition strptime :: "string \<Rightarrow> error + datetime" where
  "strptime s =
     (case format_regex_match s of
        None \<Rightarrow> Inl ValueError
      | Some (d, rest) \<Rightarrow>
          if rest \<noteq> [] then Inl ValueError
          else if valid_datetime d then Inr d else Inl ValueError)"

section \<open>Splitting a string (\<^verbatim>\<open>str.split(sep)\<close>)\<close>

fun starts_with :: "string \<Rightarrow> string \<Rightarrow> bool" where
  "starts_with [] s = True"
| "starts_with (p # ps) [] = False"
| "starts_with (p # ps) (c # cs) = (p = c \<and> starts_with ps cs)"

text \<open>
  The text is scanned from the left; at each occurrence of the separator the piece
  read so far (kept reversed in \<open>cur\<close>) is closed and the scan goes on behind the
  separator. Python raises on an empty separator; the only separator used is not empty.
\<close>

function split_aux :: "string \<Rightarrow> string \<Rightarrow> string \<Rightarrow> string list" where
  "split_aux sep cur [] = [rev cur]"
| "split_aux sep cur (c # cs) =
     (if sep \<noteq> [] \<and> starts_with sep (c # cs)
      then rev cur # split_aux sep [] (drop (length sep) (c # cs))
      else split_aux sep (c # cur) cs)"
  by pat_completeness auto
termination
  by (relation "measure (\<lambda>(sep, cur, s). length s)") (auto simp: neq_Nil_conv)

definition split_str :: "string \<Rightarrow> string \<Rightarrow> string list" where
  "split_str s sep = split_aux sep [] s"

text \<open>Whether the separator occurs somewhere in the text.\<close>

fun occurs_in :: "string \<Rightarrow> string \<Rightarrow> bool" where
  "occurs_in sep [] = starts_with sep []"
| "occurs_in sep (c # cs) = (starts_with sep (c # cs) \<or> occurs_in sep cs)"

section \<open>Tables (\<^verbatim>\<open>pandas.DataFrame\<close>)\<close>

text \<open>
  A table is its list of column labels and its rows, each row holding one cell per
  column, in the order of the labels. A cell is missing (\<open>NaN\<close>), a string or a number.
  Two cells are equal when they are the same value; as in pandas, two missing join keys
  match each other.
\<close>

datatype cell = NaN | Str string | Num int

record dataframe =
  columns :: "string list"
  rows :: "cell list list"

text \<open>A record of the document store: field names with their values, in order.\<close>

type_synonym document = "(string \<times> cell) list"

text \<open>The elements of a list without repetition, each at its first occurrence.\<close>

fun keep_first :: "'a list \<Rightarrow> 'a list \<Rightarrow> 'a list" where
  "keep_first seen [] = []"
| "keep_first seen (x # xs) =
     (if x \<in> set seen then keep_first seen xs else x # keep_first (x # seen) xs)"

text \<open>
  \<^verbatim>\<open>pd.DataFrame(records)\<close>: the columns are the field names of the records in the order
  of their first appearance, and a record without a field has a missing cell there. No
  record at all gives a table with no column and no row.
\<close>

definition DataFrame :: "document list \<Rightarrow> dataframe" where
  "DataFrame docs =
     (let cols = keep_first [] (concat (map (map fst) docs))
      in \<lparr>columns = cols,
          rows = map (\<lambda>d. map (\<lambda>c. case map_of d c of None \<Rightarrow> NaN | Some v \<Rightarrow> v) cols) docs\<rparr>)"

fun index_of :: "string list \<Rightarrow> string \<Rightarrow> nat" where
  "index_of [] c = 0"
| "index_of (x # xs) c = (if x = c then 0 else Suc (index_of xs c))"

text \<open>The cell of a row in the column with a given label.\<close>

definition cell_of :: "dataframe \<Rightarrow> string \<Rightarrow> cell list \<Rightarrow> cell" where
  "cell_of df c r = r ! index_of (columns df) c"

text \<open>Errors end a computation; \<open>bind_result\<close> passes a result on to the next statement.\<close>

definition bind_result :: "error + 'a \<Rightarrow> ('a \<Rightarrow> error + 'b) \<Rightarrow> error + 'b" where
  "bind_result m f = (case m of Inl e \<Rightarrow> Inl e | Inr x \<Rightarrow> f x)"

text \<open>
  \<^verbatim>\<open>pd.merge(left, right, left_on=..., right_on=...)\<close>, an inner join: every pair of a
  left and a right row with equal keys gives one row, in the order of the left rows. A
  label that both tables carry gets the suffix \<^verbatim>\<open>_x\<close> on the left and \<^verbatim>\<open>_y\<close> on the
  right. A key that is no column raises \<^verbatim>\<open>KeyError\<close>.
\<close>

definition merge :: "dataframe \<Rightarrow> dataframe \<Rightarrow> string \<Rightarrow> string \<Rightarrow> error + dataframe" where
  "merge left right left_on right_on =
     (if left_on \<notin> set (columns left) \<or> right_on \<notin> set (columns right) then Inl KeyError
      else
        Inr \<lparr>columns =
               map (\<lambda>c. if c \<in> set (columns right) then c @ ''_x'' else c) (columns left) @
               map (\<lambda>c. if c \<in> set (columns left) then c @ ''_y'' else c) (columns right),
             rows =
               concat (map (\<lambda>l. map (\<lambda>r. l @ r)
                   (filter (\<lambda>r. cell_of right right_on r = cell_of left left_on l) (rows right)))
                 (rows left))\<rparr>)"

text \<open>\<^verbatim>\<open>df.drop(columns=labels)\<close>: a label that is no column raises \<^verbatim>\<open>KeyError\<close>.\<close>

definition drop_cells :: "string list \<Rightarrow> string list \<Rightarrow> cell list \<Rightarrow> cell list" where
  "drop_cells cols labels r = map snd (filter (\<lambda>cv. fst cv \<notin> set labels) (zip cols r))"

definition drop_columns :: "dataframe \<Rightarrow> string list \<Rightarrow> error + dataframe" where
  "drop_columns df labels =
     (if \<not> set labels \<subseteq> set (columns df) then Inl KeyError
      else Inr \<lparr>columns = filter (\<lambda>c. c \<notin> set labels) (columns df),
                rows = map (drop_cells (columns df) labels) (rows df)\<rparr>)"

text \<open>\<^verbatim>\<open>df.rename(columns=mapping)\<close>: labels outside the mapping stay, a label of the
  mapping that is no column is ignored.\<close>

definition rename_columns :: "dataframe \<Rightarrow> (string \<times> string) list \<Rightarrow> dataframe" where
  "rename_columns df m =
     df\<lparr>columns := map (\<lambda>c. case map_of m c of None \<Rightarrow> c | Some c' \<Rightarrow> c') (columns df)\<rparr>"

text \<open>The number of cells of column \<open>j\<close> that are not missing.\<close>

definition count_non_null :: "dataframe \<Rightarrow> nat \<Rightarrow> nat" where
  "count_non_null df j = length (filter (\<lambda>r. r ! j \<noteq> NaN) (rows df))"

text \<open>\<^verbatim>\<open>df.dropna(thresh=t, axis=1)\<close> keeps the columns with at least \<open>t\<close> cells that are
  not missing.\<close>

definition dropna_columns :: "dataframe \<Rightarrow> real \<Rightarrow> dataframe" where
  "dropna_columns df thresh =
     (let keep = filter (\<lambda>j. thresh \<le> real (count_non_null df j)) [0..<length (columns df)]
      in \<lparr>columns = map (\<lambda>j. columns df ! j) keep,
          rows = map (\<lambda>r. map (\<lambda>j. r ! j) keep) (rows df)\<rparr>)"

text \<open>\<^verbatim>\<open>df.dropna()\<close> keeps the rows without a missing cell.\<close>

definition dropna_rows :: "dataframe \<Rightarrow> dataframe" where
  "dropna_rows df = df\<lparr>rows := filter (\<lambda>r. NaN \<notin> set r) (rows df)\<rparr>"

text \<open>\<^verbatim>\<open>df.drop_duplicates()\<close> keeps the first of equal rows.\<close>

definition drop_duplicates :: "dataframe \<Rightarrow> dataframe" where
  "drop_duplicates df = df\<lparr>rows := keep_first [] (rows df)\<rparr>"

section \<open>The files under \<^verbatim>\<open>data/\<close>\<close>

text \<open>
  The program reads and writes eight files with fixed names. A CSV file is kept as the
  table written to it, and \<open>None\<close> is a file that does not exist. Writing a table and
  reading it back is taken to give the same cells; what is kept of the CSV format is
  that a file written from a table without columns has no header line, and
  \<^verbatim>\<open>pd.read_csv\<close> raises \<^verbatim>\<open>EmptyDataError\<close> on it.
\<close>

record files =
  interactions_csv :: "dataframe option"
  customers_csv :: "dataframe option"
  products_csv :: "dataframe option"
  prodoutCategory_csv :: "dataframe option"
  aggregated_csv :: "dataframe option"
  processed_csv :: "dataframe option"
  pre_processed_csv :: "dataframe option"
  log_txt :: "string option"

definition read_csv :: "dataframe option \<Rightarrow> error + dataframe" where
  "read_csv f =
     (case f of
        None \<Rightarrow> Inl FileNotFoundError
      | Some df \<Rightarrow> if columns df = [] then Inl EmptyDataError else Inr df)"

section \<open>The functions of \<^verbatim>\<open>app.py\<close>\<close>

definition pre_process :: "files \<Rightarrow> error + files" where
  "pre_process fs =
     bind_result (read_csv (processed_csv fs)) (\<lambda>df.
       let df = dropna_columns df (real (length (rows df)) * 0.25);
           df = dropna_rows df;
           df = dropna_rows df;
           df = drop_duplicates df
       in Inr (fs\<lparr>pre_processed_csv := Some df\<rparr>))"

text \<open>The clock is a parameter: \<open>now\<close> is what \<^verbatim>\<open>datetime.now()\<close> returns in the call.\<close>

definition update_log :: "files \<Rightarrow> datetime \<Rightarrow> files" where
  "update_log fs now = fs\<lparr>log_txt := Some (''Last updated: '' @ strftime now)\<rparr>"

definition load_log :: "files \<Rightarrow> datetime \<Rightarrow> error + bool" where
  "load_log fs now =
     (case log_txt fs of
        None \<Rightarrow> Inl FileNotFoundError
      | Some read_data \<Rightarrow>
          (case split_str read_data ''Last updated: '' of
             p # new_datetime # ps \<Rightarrow>
               bind_result (strptime new_datetime) (\<lambda>new_datetime.
                 if datetime_sub now new_datetime > timedelta_hours 1 then Inr True
                 else Inr False)
           | _ \<Rightarrow> Inl IndexError))"

definition aggregate_data :: "files \<Rightarrow> error + files" where
  "aggregate_data fs =
     bind_result (read_csv (interactions_csv fs)) (\<lambda>interactions.
     bind_result (read_csv (customers_csv fs)) (\<lambda>customers.
     bind_result (read_csv (products_csv fs)) (\<lambda>products.
     bind_result (read_csv (prodoutCategory_csv fs)) (\<lambda>prodoutCategory.
     bind_result (merge interactions customers ''customerId'' ''_id'') (\<lambda>df.
     bind_result (drop_columns df [''_id_y'']) (\<lambda>df.
     let df = rename_columns df [(''_id_x'', ''_id'')] in
     bind_result (merge df products ''productId'' ''_id'') (\<lambda>df.
     bind_result (merge df prodoutCategory ''productCatogoryId'' ''_id'') (\<lambda>df.
     Inr (fs\<lparr>aggregated_csv := Some df\<rparr>)))))))))"

definition process_data_columns :: "string list" where
  "process_data_columns =
     [''productCatogoryId'', ''_id'', ''AvailableQuantity'', ''productImage'', ''price'', ''_id_y'',
      ''customerPhoneNumber'', ''email'', ''customerFirstName'', ''customerLastName'']"

definition process_data :: "files \<Rightarrow> error + files" where
  "process_data fs =
     bind_result (read_csv (aggregated_csv fs)) (\<lambda>df.
     bind_result (drop_columns df process_data_columns) (\<lambda>df.
     Inr (fs\<lparr>processed_csv := Some df\<rparr>)))"

section \<open>The endpoints\<close>

text \<open>
  The document store is a parameter: for the name of a collection, the records that a
  fetch returns, or the error it raises. \<^verbatim>\<open>to_list(data_length)\<close> returns at most
  \<open>data_length\<close> records.
\<close>

type_synonym store = "string \<Rightarrow> error + document list"

definition data_length :: nat where
  "data_length = 100000"

definition to_list :: "store \<Rightarrow> string \<Rightarrow> nat \<Rightarrow> error + document list" where
  "to_list db name n = bind_result (db name) (\<lambda>docs. Inr (take n docs))"

text \<open>
  The three endpoints that refresh the data run the same statements: four fetches, four
  tables written as CSV, \<open>aggregate_data\<close>, \<open>process_data\<close>, \<open>pre_process\<close> and
  \<open>update_log\<close>. An exception ends the run at the statement that raised it, and the
  files stay as the statements before it left them; \<open>refresh\<close> returns the error, if
  any, together with the files at the end of the run.
\<close>

definition refresh :: "store \<Rightarrow> files \<Rightarrow> datetime \<Rightarrow> error option \<times> files" where
  "refresh db fs now =
     (case
        bind_result (to_list db ''interactions'' data_length) (\<lambda>interactions.
        bind_result (to_list db ''customers'' data_length) (\<lambda>customers.
        bind_result (to_list db ''products'' data_length) (\<lambda>products.
        bind_result (to_list db ''prodoutCategory'' data_length) (\<lambda>prodoutCategory.
        Inr (fs\<lparr>interactions_csv := Some (DataFrame interactions),
                customers_csv := Some (DataFrame customers),
                products_csv := Some (DataFrame products),
                prodoutCategory_csv := Some (DataFrame prodoutCategory)\<rparr>)))))
      of
        Inl e \<Rightarrow> (Some e, fs)
      | Inr fs1 \<Rightarrow>
          (case aggregate_data fs1 of
             Inl e \<Rightarrow> (Some e, fs1)
           | Inr fs2 \<Rightarrow>
               (case process_data fs2 of
                  Inl e \<Rightarrow> (Some e, fs2)
                | Inr fs3 \<Rightarrow>
                    (case pre_process fs3 of
                       Inl e \<Rightarrow> (Some e, fs3)
                     | Inr fs4 \<Rightarrow> (None, update_log fs4 now)))))"

text \<open>
  The recommendation function \<^verbatim>\<open>get_rec\<close> is imported from a module outside this
  file, so it is a parameter: from the files, the user and the number of
  recommendations asked for, it returns the recommendations and the user statistics,
  or raises.
\<close>

type_synonym ('r, 's) engine = "files \<Rightarrow> string \<Rightarrow> int \<Rightarrow> error + ('r \<times> 's)"

text \<open>An endpoint returns its response, or the error that ended it, and the files it leaves.\<close>

definition get_recommendation ::
    "('r, 's) engine \<Rightarrow> files \<Rightarrow> datetime \<Rightarrow> string \<Rightarrow> int \<Rightarrow> (error + 'r) \<times> files" where
  "get_recommendation get_rec fs now user_id num_of_rec =
     (case (if num_of_rec \<noteq> 0 then get_rec fs user_id num_of_rec else get_rec fs user_id 5) of
        Inl e \<Rightarrow> (Inl e, fs)
      | Inr (recommendation, user_stat) \<Rightarrow> (Inr recommendation, update_log fs now))"

definition get_recommendation_load ::
    "('r, 's) engine \<Rightarrow> store \<Rightarrow> files \<Rightarrow> datetime \<Rightarrow> string \<Rightarrow> int \<Rightarrow> (error + 'r) \<times> files" where
  "get_recommendation_load get_rec db fs now user_id num_of_rec =
     (case refresh db fs now of
        (Some e, fs') \<Rightarrow> (Inl e, fs')
      | (None, fs') \<Rightarrow>
          (case (if num_of_rec \<noteq> 0 then get_rec fs' user_id num_of_rec else get_rec fs' user_id 5) of
             Inl e \<Rightarrow> (Inl e, fs')
           | Inr (recommendation, user_stat) \<Rightarrow> (Inr recommendation, fs')))"

definition load_data :: "store \<Rightarrow> files \<Rightarrow> datetime \<Rightarrow> (error + string) \<times> files" where
  "load_data db fs now =
     (case refresh db fs now of
        (Some e, fs') \<Rightarrow> (Inl e, fs')
      | (None, fs') \<Rightarrow> (Inr ''success'', fs'))"

text \<open>\<open>t_check\<close> is the clock read by \<open>load_log\<close>, \<open>t_write\<close> the clock read by \<open>update_log\<close>.\<close>

definition get_recommendation_load_update ::
    "('r, 's) engine \<Rightarrow> store \<Rightarrow> files \<Rightarrow> datetime \<Rightarrow> datetime \<Rightarrow> string \<Rightarrow> int \<Rightarrow>
       (error + 'r) \<times> files" where
  "get_recommendation_load_update get_rec db fs t_check t_write user_id num_of_rec =
     (case load_log fs t_check of
        Inl e \<Rightarrow> (Inl e, fs)
      | Inr stale \<Rightarrow>
          (case (if stale then refresh db fs t_write else (None, fs)) of
             (Some e, fs') \<Rightarrow> (Inl e, fs')
           | (None, fs') \<Rightarrow>
               (case (if num_of_rec \<noteq> 0 then get_rec fs' user_id num_of_rec
                      else get_rec fs' user_id 5) of
                  Inl e \<Rightarrow> (Inl e, fs')
                | Inr (recommendation, user_stat) \<Rightarrow> (Inr recommendation, fs'))))"

section \<open>The raw tables and what the joins make of them\<close>










definition aggregated_columns :: "string list" where
  "aggregated_columns =
     [''_id_x'', ''customerId'', ''productId'', ''interactionType'',
      ''customerFirstName'', ''customerLastName'', ''email'', ''customerPhoneNumber'',
      ''_id_y'', ''productName'', ''price'', ''productImage'', ''description'',
      ''productCatogoryId'', ''AvailableQuantity'',
      ''_id'', ''productCatrgoryName'', ''productCategoryId'']"

text \<open>The number of missing cells of column \<open>j\<close>.\<close>

definition count_null :: "dataframe \<Rightarrow> nat \<Rightarrow> nat" where
  "count_null df j = length (filter (\<lambda>r. r ! j = NaN) (rows df))"

section \<open>Sample values\<close>

text \<open>Clock readings around the end of February of a leap year, and a directory without files.\<close>

definition clock_a :: datetime where
  "clock_a = \<lparr>year = 2024, month = 2, day = 29, hour = 23, minute = 30, second = 15,
              microsecond = 123456\<rparr>"

definition clock_b :: datetime where
  "clock_b = \<lparr>year = 2024, month = 3, day = 1, hour = 0, minute = 30, second = 15,
              microsecond = 0\<rparr>"

definition no_files :: files where
  "no_files = \<lparr>interactions_csv = None, customers_csv = None, products_csv = None,
               prodoutCategory_csv = None, aggregated_csv = None, processed_csv = None,
               pre_processed_csv = None, log_txt = None\<rparr>"

definition clock_c :: datetime where
  "clock_c = \<lparr>year = 2024, month = 3, day = 1, hour = 0, minute = 30, second = 16,
              microsecond = 0\<rparr>"

definition clock_d :: datetime where
  "clock_d = \<lparr>year = 2024, month = 3, day = 1, hour = 0, minute = 30, second = 14,
              microsecond = 0\<rparr>"

text \<open>
  A store with three interactions (the second names a product that does not exist), two
  customers, two products and one category; the tables made of them; the files after
  the extraction; and what the joins and the projection make of them. \<open>echo_engine\<close>
  answers with the number of recommendations it was asked for.
\<close>

definition sample_interactions :: "document list" where
  "sample_interactions =
     [[(''_id'', Str ''i1''), (''customerId'', Str ''c1''), (''productId'', Str ''p1''),
       (''interactionType'', Num 1)],
      [(''_id'', Str ''i2''), (''customerId'', Str ''c2''), (''productId'', Str ''p9''),
       (''interactionType'', Num 2)],
      [(''_id'', Str ''i3''), (''customerId'', Str ''c2''), (''productId'', Str ''p2''),
       (''interactionType'', Num 3)]]"

definition sample_customers :: "document list" where
  "sample_customers =
     [[(''_id'', Str ''c1''), (''customerFirstName'', Str ''John''),
       (''customerLastName'', Str ''Doe''), (''email'', Str ''johndoe@gmail.com''),
       (''customerPhoneNumber'', Str ''+9423456789'')],
      [(''_id'', Str ''c2''), (''customerFirstName'', Str ''Jane''),
       (''customerLastName'', Str ''Roe''), (''email'', Str ''janeroe@gmail.com''),
       (''customerPhoneNumber'', Str ''+9423456780'')]]"

definition sample_products :: "document list" where
  "sample_products =
     [[(''_id'', Str ''p1''), (''productName'', Str ''Apple''), (''price'', Num 2),
       (''productImage'', Str ''a.png''), (''description'', Str ''A red apple''),
       (''productCatogoryId'', Str ''k1''), (''AvailableQuantity'', Num 100)],
      [(''_id'', Str ''p2''), (''productName'', Str ''Pear''), (''price'', Num 3),
       (''productImage'', Str ''p.png''), (''description'', Str ''A green pear''),
       (''productCatogoryId'', Str ''k1''), (''AvailableQuantity'', Num 50)]]"

definition sample_categories :: "document list" where
  "sample_categories =
     [[(''_id'', Str ''k1''), (''productCatrgoryName'', Str ''Fruits''),
       (''productCategoryId'', Num 1)]]"

definition sample_store :: store where
  "sample_store name =
     (if name = ''interactions'' then Inr sample_interactions
      else if name = ''customers'' then Inr sample_customers
      else if name = ''products'' then Inr sample_products
      else if name = ''prodoutCategory'' then Inr sample_categories
      else Inl StoreError)"

definition interactions_table :: dataframe where
  "interactions_table =
     \<lparr>columns = [''_id'', ''customerId'', ''productId'', ''interactionType''],
      rows = [[Str ''i1'', Str ''c1'', Str ''p1'', Num 1],
              [Str ''i2'', Str ''c2'', Str ''p9'', Num 2],
              [Str ''i3'', Str ''c2'', Str ''p2'', Num 3]]\<rparr>"

definition customers_table :: dataframe where
  "customers_table =
     \<lparr>columns = [''_id'', ''customerFirstName'', ''customerLastName'', ''email'',
                 ''customerPhoneNumber''],
      rows = [[Str ''c1'', Str ''John'', Str ''Doe'', Str ''johndoe@gmail.com'',
               Str ''+9423456789''],
              [Str ''c2'', Str ''Jane'', Str ''Roe'', Str ''janeroe@gmail.com'',
               Str ''+9423456780'']]\<rparr>"

definition products_table :: dataframe where
  "products_table =
     \<lparr>columns = [''_id'', ''productName'', ''price'', ''productImage'', ''description'',
                 ''productCatogoryId'', ''AvailableQuantity''],
      rows = [[Str ''p1'', Str ''Apple'', Num 2, Str ''a.png'', Str ''A red apple'', Str ''k1'',
               Num 100],
              [Str ''p2'', Str ''Pear'', Num 3, Str ''p.png'', Str ''A green pear'', Str ''k1'',
               Num 50]]\<rparr>"

definition categories_table :: dataframe where
  "categories_table =
     \<lparr>columns = [''_id'', ''productCatrgoryName'', ''productCategoryId''],
      rows = [[Str ''k1'', Str ''Fruits'', Num 1]]\<rparr>"


definition aggregated_table :: dataframe where
  "aggregated_table =
     \<lparr>columns = aggregated_columns,
      rows = [[Str ''i1'', Str ''c1'', Str ''p1'', Num 1,
               Str ''John'', Str ''Doe'', Str ''johndoe@gmail.com'', Str ''+9423456789'',
               Str ''p1'', Str ''Apple'', Num 2, Str ''a.png'', Str ''A red apple'', Str ''k1'',
               Num 100, Str ''k1'', Str ''Fruits'', Num 1],
              [Str ''i3'', Str ''c2'', Str ''p2'', Num 3,
               Str ''Jane'', Str ''Roe'', Str ''janeroe@gmail.com'', Str ''+9423456780'',
               Str ''p2'', Str ''Pear'', Num 3, Str ''p.png'', Str ''A green pear'', Str ''k1'',
               Num 50, Str ''k1'', Str ''Fruits'', Num 1]]\<rparr>"

definition processed_table :: dataframe where
  "processed_table =
     \<lparr>columns = [''_id_x'', ''customerId'', ''productId'', ''interactionType'', ''productName'',
                 ''description'', ''productCatrgoryName'', ''productCategoryId''],
      rows = [[Str ''i1'', Str ''c1'', Str ''p1'', Num 1, Str ''Apple'', Str ''A red apple'',
               Str ''Fruits'', Num 1],
              [Str ''i3'', Str ''c2'', Str ''p2'', Num 3, Str ''Pear'', Str ''A green pear'',
               Str ''Fruits'', Num 1]]\<rparr>"

definition echo_engine :: "(int, unit) engine" where
  "echo_engine fs user_id num_of_rec = Inr (num_of_rec, ())"

definition empty_customers_store :: store where
  "empty_customers_store name = (if name = ''customers'' then Inr [] else sample_store name)"

text \<open>A table of a hundred rows: column \<^verbatim>\<open>a\<close> has 80 missing cells, column \<^verbatim>\<open>b\<close> has 70.\<close>

definition hundred_rows :: dataframe where
  "hundred_rows =
     \<lparr>columns = [''a'', ''b'', ''c''],
      rows = replicate 70 [NaN, NaN, Str ''x''] @ replicate 10 [NaN, Num 1, Str ''x''] @
             replicate 20 [Num 1, Num 1, Str ''x'']\<rparr>"

section \<open>Parsing reads back what formatting wrote\<close>

subsection \<open>Digits\<close>

lemma digit_val_digit_char: "n < 10 \<Longrightarrow> digit_val (digit_char n) = n"
  by (simp add: digit_val_def digit_char_def)

lemma of_char_digit_char: "n < 10 \<Longrightarrow> (of_char (digit_char n) :: nat) = 48 + n"
  by (simp add: digit_char_def)

lemma in_range_digit_char:
  "n < 10 \<Longrightarrow>
     in_range lo hi (digit_char n) = ((of_char lo :: nat) \<le> 48 + n \<and> 48 + n \<le> (of_char hi :: nat))"
  by (simp add: in_range_def of_char_digit_char)

lemma is_digit_digit_char: "n < 10 \<Longrightarrow> is_digit (digit_char n)"
  by (simp add: is_digit_def in_range_digit_char)

lemma digit_char_eq: "n < 10 \<Longrightarrow> (digit_char n = c) = ((of_char c :: nat) = 48 + n)"
proof -
  assume n: "n < 10"
  have "(digit_char n = c) = (take_bit 8 (48 + n) = (of_char c :: nat))"
    unfolding digit_char_def by (rule char_of_eq_iff)
  also from n have "take_bit 8 (48 + n) = 48 + n"
    by (simp add: take_bit_eq_mod)
  finally show ?thesis by (rule trans) (rule eq_commute)
qed

lemmas digit_simps = in_range_digit_char is_digit_digit_char digit_val_digit_char digit_char_eq

lemma pad2_split:
  "n < 100 \<Longrightarrow>
     \<exists>a b. a < 10 \<and> b < 10 \<and> n = 10 * a + b \<and> pad2 n = [digit_char a, digit_char b]"
  by (rule exI[of _ "n div 10"], rule exI[of _ "n mod 10"]) (simp add: pad2_def)

lemma pad2_digits: "\<exists>a b. pad2 n = [a, b] \<and> is_digit a \<and> is_digit b"
  by (simp add: pad2_def is_digit_digit_char)

subsection \<open>Each group of the expression reads back what \<open>strftime\<close> wrote\<close>

lemma re_M_digits:
  "a < 6 \<Longrightarrow> b < 10 \<Longrightarrow> re_M (digit_char a # digit_char b # r) = Some (10 * a + b, r)"
  by (simp add: re_M_def digit_simps)

lemma re_H_digits:
  "10 * a + b < 24 \<Longrightarrow> b < 10 \<Longrightarrow> re_H (digit_char a # digit_char b # r) = Some (10 * a + b, r)"
  by (simp add: re_H_def digit_simps)

lemma re_S_digits:
  "a < 6 \<Longrightarrow> b < 10 \<Longrightarrow> re_S (digit_char a # digit_char b # r) = Some (10 * a + b, r)"
  by (simp add: re_S_def digit_simps)

lemma re_d_digits:
  "1 \<le> 10 * a + b \<Longrightarrow> 10 * a + b \<le> 31 \<Longrightarrow> b < 10 \<Longrightarrow>
     re_d (digit_char a # digit_char b # r) = Some (10 * a + b, r)"
  by (simp add: re_d_def digit_simps)

lemma re_m_digits:
  "1 \<le> 10 * a + b \<Longrightarrow> 10 * a + b \<le> 12 \<Longrightarrow> b < 10 \<Longrightarrow>
     re_m (digit_char a # digit_char b # r) = Some (10 * a + b, r)"
  by (simp add: re_m_def digit_simps)

lemma re_M_pad2: "n < 60 \<Longrightarrow> re_M (pad2 n @ r) = Some (n, r)"
  using pad2_split[of n] by (auto simp: re_M_digits)

lemma re_S_pad2: "n < 60 \<Longrightarrow> re_S (pad2 n @ r) = Some (n, r)"
  using pad2_split[of n] by (auto simp: re_S_digits)

lemma re_H_pad2: "n < 24 \<Longrightarrow> re_H (pad2 n @ r) = Some (n, r)"
  using pad2_split[of n] by (auto simp: re_H_digits)

lemma re_d_pad2: "1 \<le> n \<Longrightarrow> n \<le> 31 \<Longrightarrow> re_d (pad2 n @ r) = Some (n, r)"
  using pad2_split[of n] by (auto simp: re_d_digits)

lemma re_m_pad2: "1 \<le> n \<Longrightarrow> n \<le> 12 \<Longrightarrow> re_m (pad2 n @ r) = Some (n, r)"
  using pad2_split[of n] by (auto simp: re_m_digits)

lemma dec_step: "10 \<le> n \<Longrightarrow> dec n = dec (n div 10) @ [digit_char (n mod 10)]"
  by (subst dec.simps) simp

lemma dec_digit: "n < 10 \<Longrightarrow> dec n = [digit_char n]"
  by (subst dec.simps) simp

lemma dec_four_digits:
  assumes "1000 \<le> n" "n \<le> 9999"
  shows "\<exists>a b c d. a < 10 \<and> b < 10 \<and> c < 10 \<and> d < 10 \<and> n = 1000 * a + 100 * b + 10 * c + d \<and>
           dec n = [digit_char a, digit_char b, digit_char c, digit_char d]"
proof -
  define q1 where "q1 = n div 10"
  define q2 where "q2 = q1 div 10"
  define q3 where "q3 = q2 div 10"
  have n: "n = 10 * q1 + n mod 10" by (simp add: q1_def)
  have q1: "q1 = 10 * q2 + q1 mod 10" by (simp add: q2_def)
  have q2: "q2 = 10 * q3 + q2 mod 10" by (simp add: q3_def)
  have b1: "100 \<le> q1" "q1 \<le> 999" using assms by (simp_all add: q1_def)
  have b2: "10 \<le> q2" "q2 \<le> 99" using b1 by (simp_all add: q2_def)
  have b3: "q3 < 10" using b2 by (simp add: q3_def)
  have "dec n = [digit_char q3, digit_char (q2 mod 10), digit_char (q1 mod 10), digit_char (n mod 10)]"
    using assms b1 b2 b3
    by (simp add: dec_step dec_digit q1_def[symmetric] q2_def[symmetric] q3_def[symmetric])
  moreover have "n = 1000 * q3 + 100 * (q2 mod 10) + 10 * (q1 mod 10) + n mod 10"
    using n q1 q2 by linarith
  ultimately show ?thesis
    using b3 by (intro exI[of _ q3] exI[of _ "q2 mod 10"] exI[of _ "q1 mod 10"] exI[of _ "n mod 10"]) simp
qed

lemma re_Y_dec:
  assumes "1000 \<le> n" "n \<le> 9999"
  shows "re_Y (dec n @ r) = Some (n, r)"
  using dec_four_digits[OF assms] by (auto simp: re_Y_def digit_simps)

lemma days_in_month_le: "days_in_month y m \<le> 31 \<or> 12 < m"
proof -
  have "m \<in> {0, 1, 2, 3, 4, 5, 6, 7, 8, 9, 10, 11, 12} \<or> 12 < m" by (simp, arith)
  then show ?thesis by (auto simp: days_in_month_def)
qed

lemma is_digit_not_space: "is_digit c \<Longrightarrow> \<not> is_space c"
  by (simp add: is_digit_def in_range_def is_space_def Let_def)

lemma is_space_blank: "is_space (CHR '' '')"
  by (simp add: is_space_def Let_def)

lemma re_spaces_pad2: "re_spaces (CHR '' '' # pad2 n @ r) = Some (pad2 n @ r)"
  using pad2_digits[of n] by (auto simp: re_spaces_def is_space_blank is_digit_not_space)

lemma format_regex_match_strftime:
  assumes "valid_datetime d" "1000 \<le> year d"
  shows "format_regex_match (strftime d) = Some (d\<lparr>microsecond := 0\<rparr>, [])"
proof -
  from assms have dd: "1 \<le> day d" "day d \<le> 31"
    using days_in_month_le[of "year d" "month d"] by (auto simp: valid_datetime_def)
  from assms have r: "1 \<le> month d" "month d \<le> 12" "year d \<le> 9999" "hour d < 24"
      "minute d < 60" "second d < 60"
    by (auto simp: valid_datetime_def)
  have "re_S (pad2 (second d)) = Some (second d, [])"
    using re_S_pad2[OF r(6), of "[]"] by simp
  then show ?thesis
    using dd r assms(2)
    by (simp add: format_regex_match_def strftime_def re_d_pad2 re_m_pad2 re_Y_dec re_H_pad2
        re_M_pad2 re_lit_def re_spaces_pad2)
qed

lemma strptime_strftime:
  assumes "valid_datetime d" "1000 \<le> year d"
  shows "strptime (strftime d) = Inr (d\<lparr>microsecond := 0\<rparr>)"
  using assms by (simp add: strptime_def format_regex_match_strftime valid_datetime_def)

section \<open>The freshness log\<close>

subsection \<open>Splitting\<close>

lemma split_aux_no_occurrence:
  "\<not> occurs_in sep s \<Longrightarrow> split_aux sep cur s = [rev cur @ s]"
  by (induction s arbitrary: cur) auto



lemma starts_with_append: "starts_with p (p @ s)"
  by (induction p) auto

lemma starts_with_hd: "starts_with (p # ps) s \<Longrightarrow> p \<in> set s"
  by (cases s) auto

lemma occurs_in_hd: "occurs_in (p # ps) s \<Longrightarrow> p \<in> set s"
  by (induction s) (auto dest: starts_with_hd)

lemma split_str_marker:
  assumes "sep \<noteq> []" "hd sep \<notin> set s"
  shows "split_str (sep @ s) sep = [[], s]"
proof -
  obtain p ps where sep: "sep = p # ps" using assms(1) by (cases sep) auto
  have no: "\<not> occurs_in sep s" using assms(2) sep by (auto dest: occurs_in_hd)
  have "split_aux sep [] (sep @ s) = [] # split_aux sep [] (drop (length sep) (sep @ s))"
    using starts_with_append[of sep s] sep by simp
  then show ?thesis
    using split_aux_no_occurrence[OF no, of "[]"] by (simp add: split_str_def)
qed

lemma digit_char_not_L: "n < 10 \<Longrightarrow> digit_char n \<noteq> CHR ''L''"
  by (simp add: digit_char_eq)

lemma L_notin_pad2: "CHR ''L'' \<notin> set (pad2 n)"
  using digit_char_not_L[of "n div 10 mod 10"] digit_char_not_L[of "n mod 10"]
  by (auto simp: pad2_def)

lemma L_notin_dec: "CHR ''L'' \<notin> set (dec n)"
proof (induction n rule: dec.induct)
  case (1 n)
  show ?case
  proof (cases "n < 10")
    case True
    then show ?thesis using digit_char_not_L[of n] by (auto simp: dec_digit)
  next
    case False
    with 1 show ?thesis using digit_char_not_L[of "n mod 10"] by (auto simp: dec_step)
  qed
qed

lemma L_notin_strftime: "CHR ''L'' \<notin> set (strftime d)"
  by (simp add: strftime_def L_notin_pad2 L_notin_dec)

lemma split_str_update_log:
  "split_str (''Last updated: '' @ strftime d) ''Last updated: '' = [[], strftime d]"
  by (rule split_str_marker) (simp_all add: L_notin_strftime)

lemma load_log_update_log:
  assumes "valid_datetime w" "1000 \<le> year w"
  shows "load_log (update_log fs w) n =
           Inr (timedelta_hours 1 < datetime_sub n (w\<lparr>microsecond := 0\<rparr>))"
proof -
  have "log_txt (update_log fs w) = Some (''Last updated: '' @ strftime w)"
    unfolding update_log_def by simp
  then show ?thesis
    unfolding load_log_def
    by (simp only: option.case split_str_update_log list.case strptime_strftime[OF assms]
        bind_result_def sum.case) simp
qed


lemma clock_a_valid: "valid_datetime clock_a \<and> 1000 \<le> year clock_a"
  by (simp add: valid_datetime_def clock_a_def days_in_month_def is_leap_def)

lemma elapsed_clock_b: "datetime_sub clock_b (clock_a\<lparr>microsecond := 0\<rparr>) = timedelta_of 0 3600 0"
  by (simp add: datetime_sub_def clock_a_def clock_b_def toordinal_def days_before_year_def
      days_before_month_def is_leap_def day_seconds_def timedelta_of_def)

lemma elapsed_clock_c: "datetime_sub clock_c (clock_a\<lparr>microsecond := 0\<rparr>) = timedelta_of 0 3601 0"
  by (simp add: datetime_sub_def clock_a_def clock_c_def toordinal_def days_before_year_def
      days_before_month_def is_leap_def day_seconds_def timedelta_of_def)

lemma elapsed_clock_d: "datetime_sub clock_d (clock_a\<lparr>microsecond := 0\<rparr>) = timedelta_of 0 3599 0"
  by (simp add: datetime_sub_def clock_a_def clock_d_def toordinal_def days_before_year_def
      days_before_month_def is_leap_def day_seconds_def timedelta_of_def)

text \<open>
  Claim C2. After \<open>update_log\<close> has written the clock reading \<open>w\<close>, the persisted
  timestamp is \<open>w\<close> cut to whole seconds, and \<open>load_log\<close> at the clock reading \<open>n\<close>
  returns true if and only if the time from the persisted timestamp to \<open>n\<close> is more
  than one hour: false at exactly one hour, false at one hour less one second, true at
  one hour and one second. The year of the clock has four digits.
\<close>

theorem load_log_stale_iff_elapsed_exceeds_hour:
  assumes "valid_datetime w" "1000 \<le> year w"
  shows "load_log (update_log fs w) n =
           Inr (timedelta_hours 1 < datetime_sub n (w\<lparr>microsecond := 0\<rparr>)) \<and>
         (datetime_sub n (w\<lparr>microsecond := 0\<rparr>) = timedelta_of 0 3600 0 \<longrightarrow>
            load_log (update_log fs w) n = Inr False) \<and>
         (datetime_sub n (w\<lparr>microsecond := 0\<rparr>) = timedelta_of 0 3599 0 \<longrightarrow>
            load_log (update_log fs w) n = Inr False) \<and>
         (datetime_sub n (w\<lparr>microsecond := 0\<rparr>) = timedelta_of 0 3601 0 \<longrightarrow>
            load_log (update_log fs w) n = Inr True)"
  by (simp add: load_log_update_log[OF assms] timedelta_hours_def timedelta_of_def)

text \<open>
  The log written at 23:30:15.123456 on 29 February 2024 holds 23:30:15; it is not
  stale at 00:30:15 and at 00:30:14 of the next day, and stale at 00:30:16.
\<close>

theorem load_log_stale_iff_elapsed_exceeds_hour_witness:
  "valid_datetime clock_a \<and> 1000 \<le> year clock_a \<and>
   datetime_sub clock_b (clock_a\<lparr>microsecond := 0\<rparr>) = timedelta_of 0 3600 0 \<and>
   load_log (update_log no_files clock_a) clock_b = Inr False \<and>
   datetime_sub clock_d (clock_a\<lparr>microsecond := 0\<rparr>) = timedelta_of 0 3599 0 \<and>
   load_log (update_log no_files clock_a) clock_d = Inr False \<and>
   datetime_sub clock_c (clock_a\<lparr>microsecond := 0\<rparr>) = timedelta_of 0 3601 0 \<and>
   load_log (update_log no_files clock_a) clock_c = Inr True"
  using load_log_stale_iff_elapsed_exceeds_hour[of clock_a no_files clock_b]
    load_log_stale_iff_elapsed_exceeds_hour[of clock_a no_files clock_c]
    load_log_stale_iff_elapsed_exceeds_hour[of clock_a no_files clock_d]
    clock_a_valid elapsed_clock_b elapsed_clock_c elapsed_clock_d
  by (simp add: timedelta_hours_def timedelta_of_def)




section \<open>The projection\<close>

lemma read_csv_Some: "columns df \<noteq> [] \<Longrightarrow> read_csv (Some df) = Inr df"
  by (simp add: read_csv_def)

lemma columns_drop_columns:
  "drop_columns df labels = Inr out \<Longrightarrow> set (columns out) = set (columns df) - set labels"
  by (auto simp: drop_columns_def split: if_splits)

lemma rows_drop_columns:
  "drop_columns df labels = Inr out \<Longrightarrow> length (rows out) = length (rows df)"
  by (auto simp: drop_columns_def split: if_splits)

lemma drop_columns_ok:
  "set labels \<subseteq> set (columns df) \<Longrightarrow> \<exists>out. drop_columns df labels = Inr out"
  by (simp add: drop_columns_def)

lemma drop_columns_missing:
  "\<not> set labels \<subseteq> set (columns df) \<Longrightarrow> drop_columns df labels = Inl KeyError"
  by (simp add: drop_columns_def)

text \<open>
  Claim C5. When every column of the fixed list is there, \<open>process_data\<close> writes a
  table whose set of columns is that of the aggregated table without the list, with
  as many rows; none of \<^verbatim>\<open>_id\<close>, \<^verbatim>\<open>_id_y\<close>, \<^verbatim>\<open>productCatogoryId\<close>,
  \<^verbatim>\<open>AvailableQuantity\<close>, \<^verbatim>\<open>productImage\<close>, \<^verbatim>\<open>price\<close>, \<^verbatim>\<open>customerPhoneNumber\<close>,
  \<^verbatim>\<open>email\<close>, \<^verbatim>\<open>customerFirstName\<close>, \<^verbatim>\<open>customerLastName\<close> is a column of it.
\<close>

theorem process_data_drops_fixed_columns:
  assumes "aggregated_csv fs = Some df" "set process_data_columns \<subseteq> set (columns df)"
  shows "\<exists>out. process_data fs = Inr (fs\<lparr>processed_csv := Some out\<rparr>) \<and>
           set (columns out) = set (columns df) - set process_data_columns \<and>
           length (rows out) = length (rows df) \<and>
           ''_id'' \<notin> set (columns out) \<and> ''_id_y'' \<notin> set (columns out) \<and>
           ''productCatogoryId'' \<notin> set (columns out) \<and>
           ''AvailableQuantity'' \<notin> set (columns out) \<and>
           ''productImage'' \<notin> set (columns out) \<and> ''price'' \<notin> set (columns out) \<and>
           ''customerPhoneNumber'' \<notin> set (columns out) \<and> ''email'' \<notin> set (columns out) \<and>
           ''customerFirstName'' \<notin> set (columns out) \<and>
           ''customerLastName'' \<notin> set (columns out)"
proof -
  from assms(2) have ne: "columns df \<noteq> []" by (auto simp: process_data_columns_def)
  from drop_columns_ok[OF assms(2)] obtain out where
    out: "drop_columns df process_data_columns = Inr out" by blast
  have cols: "set (columns out) = set (columns df) - set process_data_columns"
    by (rule columns_drop_columns[OF out])
  have "process_data fs = Inr (fs\<lparr>processed_csv := Some out\<rparr>)"
    using assms(1) ne out by (simp add: process_data_def read_csv_Some bind_result_def)
  moreover have "length (rows out) = length (rows df)" by (rule rows_drop_columns[OF out])
  moreover have "\<forall>c \<in> set process_data_columns. c \<notin> set (columns out)"
    using cols by blast
  then have "''_id'' \<notin> set (columns out) \<and> ''_id_y'' \<notin> set (columns out) \<and>
           ''productCatogoryId'' \<notin> set (columns out) \<and>
           ''AvailableQuantity'' \<notin> set (columns out) \<and>
           ''productImage'' \<notin> set (columns out) \<and> ''price'' \<notin> set (columns out) \<and>
           ''customerPhoneNumber'' \<notin> set (columns out) \<and> ''email'' \<notin> set (columns out) \<and>
           ''customerFirstName'' \<notin> set (columns out) \<and>
           ''customerLastName'' \<notin> set (columns out)"
    by (simp add: process_data_columns_def)
  ultimately show ?thesis using cols by blast
qed

text \<open>
  Claim C6. \<open>process_data\<close> raises when a column of its list is missing from the table
  it reads (\<^verbatim>\<open>KeyError\<close>, or \<^verbatim>\<open>EmptyDataError\<close> for a table without columns); so it
  raises on its own output.
\<close>

theorem process_data_fails_on_missing_column:
  "(\<forall>df. aggregated_csv fs = Some df \<longrightarrow> \<not> set process_data_columns \<subseteq> set (columns df) \<longrightarrow>
      process_data fs = Inl (if columns df = [] then EmptyDataError else KeyError)) \<and>
   (\<forall>fs'. process_data fs = Inr fs' \<longrightarrow>
      (\<exists>out. processed_csv fs' = Some out \<and>
         process_data (fs'\<lparr>aggregated_csv := Some out\<rparr>) =
           Inl (if columns out = [] then EmptyDataError else KeyError)))"
proof (intro conjI allI impI)
  fix df assume "aggregated_csv fs = Some df" "\<not> set process_data_columns \<subseteq> set (columns df)"
  then show "process_data fs = Inl (if columns df = [] then EmptyDataError else KeyError)"
    by (simp add: process_data_def read_csv_def bind_result_def drop_columns_missing)
next
  fix fs' assume ok: "process_data fs = Inr fs'"
  then obtain df where df: "read_csv (aggregated_csv fs) = Inr df"
    by (cases "read_csv (aggregated_csv fs)") (auto simp: process_data_def bind_result_def)
  with ok obtain out where out: "drop_columns df process_data_columns = Inr out"
    and fs': "fs' = fs\<lparr>processed_csv := Some out\<rparr>"
    by (cases "drop_columns df process_data_columns") (auto simp: process_data_def bind_result_def)
  have "''_id'' \<notin> set (columns out)"
    using columns_drop_columns[OF out] by (simp add: process_data_columns_def)
  then have "\<not> set process_data_columns \<subseteq> set (columns out)"
    by (auto simp: process_data_columns_def)
  then have "process_data (fs'\<lparr>aggregated_csv := Some out\<rparr>) =
           Inl (if columns out = [] then EmptyDataError else KeyError)"
    by (simp add: process_data_def read_csv_def bind_result_def drop_columns_missing)
  with fs' show "\<exists>out. processed_csv fs' = Some out \<and>
         process_data (fs'\<lparr>aggregated_csv := Some out\<rparr>) =
           Inl (if columns out = [] then EmptyDataError else KeyError)"
    by simp
qed

section \<open>The number of recommendations\<close>

lemma engine_call:
  fixes g :: "int \<Rightarrow> error + ('r \<times> 's)"
  shows "(case (if n \<noteq> 0 then g n else g 5) of
            Inl e \<Rightarrow> (Inl e, a) | Inr (recommendation, user_stat) \<Rightarrow> (Inr recommendation, b)) =
         (case g (if n = 0 then 5 else n) of Inl e \<Rightarrow> (Inl e, a) | Inr rs \<Rightarrow> (Inr (fst rs), b))"
  by (cases "n = 0") (simp_all split: sum.split prod.split)

lemma engine_call_same:
  fixes r :: "error + ('r \<times> 's)"
  shows "(case r of Inl e \<Rightarrow> (Inl e, a) | Inr rs \<Rightarrow> (Inr (fst rs), a)) = (map_sum id fst r, a)"
  by (cases r) simp_all

text \<open>
  Claim C10. In each of the three endpoints the recommendation function is called with
  5 when \<open>num_of_rec\<close> is 0, and with \<open>num_of_rec\<close> itself otherwise.
\<close>

theorem engine_receives_five_for_zero:
  "fst (get_recommendation get_rec fs now user_id num_of_rec) =
     map_sum id fst (get_rec fs user_id (if num_of_rec = 0 then 5 else num_of_rec)) \<and>
   get_recommendation_load get_rec db fs now user_id num_of_rec =
     (case refresh db fs now of
        (Some e, fs') \<Rightarrow> (Inl e, fs')
      | (None, fs') \<Rightarrow>
          (map_sum id fst (get_rec fs' user_id (if num_of_rec = 0 then 5 else num_of_rec)), fs')) \<and>
   get_recommendation_load_update get_rec db fs t_check t_write user_id num_of_rec =
     (case load_log fs t_check of
        Inl e \<Rightarrow> (Inl e, fs)
      | Inr stale \<Rightarrow>
          (case (if stale then refresh db fs t_write else (None, fs)) of
             (Some e, fs') \<Rightarrow> (Inl e, fs')
           | (None, fs') \<Rightarrow>
               (map_sum id fst (get_rec fs' user_id (if num_of_rec = 0 then 5 else num_of_rec)),
                fs')))"
proof (intro conjI)
  show "fst (get_recommendation get_rec fs now user_id num_of_rec) =
     map_sum id fst (get_rec fs user_id (if num_of_rec = 0 then 5 else num_of_rec))"
    unfolding get_recommendation_def engine_call
    by (cases "get_rec fs user_id (if num_of_rec = 0 then 5 else num_of_rec)") simp_all
  show "get_recommendation_load get_rec db fs now user_id num_of_rec =
     (case refresh db fs now of
        (Some e, fs') \<Rightarrow> (Inl e, fs')
      | (None, fs') \<Rightarrow>
          (map_sum id fst (get_rec fs' user_id (if num_of_rec = 0 then 5 else num_of_rec)), fs'))"
    unfolding get_recommendation_load_def engine_call engine_call_same ..
  show "get_recommendation_load_update get_rec db fs t_check t_write user_id num_of_rec =
     (case load_log fs t_check of
        Inl e \<Rightarrow> (Inl e, fs)
      | Inr stale \<Rightarrow>
          (case (if stale then refresh db fs t_write else (None, fs)) of
             (Some e, fs') \<Rightarrow> (Inl e, fs')
           | (None, fs') \<Rightarrow>
               (map_sum id fst (get_rec fs' user_id (if num_of_rec = 0 then 5 else num_of_rec)),
                fs')))"
    unfolding get_recommendation_load_update_def engine_call engine_call_same ..
qed

section \<open>The joins\<close>


















lemma DataFrame_samples:
  "DataFrame sample_interactions = interactions_table"
  "DataFrame sample_customers = customers_table"
  "DataFrame sample_products = products_table"
  "DataFrame sample_categories = categories_table"
  by (simp_all add: DataFrame_def sample_interactions_def interactions_table_def
      sample_customers_def customers_table_def sample_products_def products_table_def
      sample_categories_def categories_table_def)










section \<open>The cleaning\<close>

lemma count_null_non_null: "count_null df j + count_non_null df j = length (rows df)"
  unfolding count_null_def count_non_null_def by (rule sum_length_filter_compl)

lemma quarter_threshold: "(real n * 0.25 \<le> real c) = (n \<le> 4 * c)"
proof -
  have "(real n * 0.25 \<le> real c) = (real n \<le> real (4 * c))" by (simp add: mult.commute)
  also have "\<dots> = (n \<le> 4 * c)" by (rule of_nat_le_iff)
  finally show ?thesis .
qed

lemma columns_dropna_columns:
  "columns (dropna_columns df t) =
     map (\<lambda>j. columns df ! j) (filter (\<lambda>j. t \<le> real (count_non_null df j)) [0..<length (columns df)])"
  by (simp add: dropna_columns_def Let_def)

lemma nth_mem_map_filter:
  assumes "distinct xs" "j < length xs"
  shows "xs ! j \<in> set (map (\<lambda>j. xs ! j) (filter Q [0..<length xs])) \<longleftrightarrow> Q j"
proof
  assume "xs ! j \<in> set (map (\<lambda>j. xs ! j) (filter Q [0..<length xs]))"
  then obtain k where k: "k < length xs" "Q k" "xs ! k = xs ! j" by auto
  with assms have "k = j" by (simp add: nth_eq_iff_index_eq)
  with k show "Q j" by simp
next
  assume "Q j"
  with assms(2) show "xs ! j \<in> set (map (\<lambda>j. xs ! j) (filter Q [0..<length xs]))" by auto
qed

lemma pre_process_columns:
  assumes "processed_csv fs = Some df" "columns df \<noteq> []"
  shows "\<exists>out. pre_process fs = Inr (fs\<lparr>pre_processed_csv := Some out\<rparr>) \<and>
           columns out = map (\<lambda>j. columns df ! j)
             (filter (\<lambda>j. length (rows df) \<le> 4 * count_non_null df j) [0..<length (columns df)])"
proof -
  let ?out = "drop_duplicates (dropna_rows (dropna_rows
      (dropna_columns df (real (length (rows df)) * 0.25))))"
  have "pre_process fs = Inr (fs\<lparr>pre_processed_csv := Some ?out\<rparr>)"
    unfolding pre_process_def assms(1) using assms(2)
    by (simp only: read_csv_def option.case if_False bind_result_def sum.case Let_def)
  moreover have "columns ?out = map (\<lambda>j. columns df ! j)
             (filter (\<lambda>j. length (rows df) \<le> 4 * count_non_null df j) [0..<length (columns df)])"
  proof -
    have "columns ?out = columns (dropna_columns df (real (length (rows df)) * 0.25))"
      by (simp add: drop_duplicates_def dropna_rows_def)
    also have "\<dots> = map (\<lambda>j. columns df ! j)
        (filter (\<lambda>j. real (length (rows df)) * 0.25 \<le> real (count_non_null df j))
           [0..<length (columns df)])"
      by (rule columns_dropna_columns)
    also have "\<dots> = map (\<lambda>j. columns df ! j)
        (filter (\<lambda>j. length (rows df) \<le> 4 * count_non_null df j) [0..<length (columns df)])"
      by (simp only: quarter_threshold)
    finally show ?thesis .
  qed
  ultimately show ?thesis by blast
qed

text \<open>
  Claim C7. \<open>pre_process\<close> drops a column if and only if four times its number of cells
  that are not missing is less than the number of rows. With a hundred rows, a column
  with 80 missing cells goes, and one with 70 (or with 75) stays.
\<close>

theorem pre_process_drops_sparse_columns:
  assumes "processed_csv fs = Some df" "columns df \<noteq> []" "distinct (columns df)"
  shows "\<exists>out. pre_process fs = Inr (fs\<lparr>pre_processed_csv := Some out\<rparr>) \<and>
           (\<forall>j. j < length (columns df) \<longrightarrow>
              (columns df ! j \<notin> set (columns out)) = (4 * count_non_null df j < length (rows df))) \<and>
           (\<forall>j. j < length (columns df) \<longrightarrow> length (rows df) = 100 \<longrightarrow> count_null df j = 80 \<longrightarrow>
              columns df ! j \<notin> set (columns out)) \<and>
           (\<forall>j. j < length (columns df) \<longrightarrow> length (rows df) = 100 \<longrightarrow> count_null df j = 70 \<longrightarrow>
              columns df ! j \<in> set (columns out)) \<and>
           (\<forall>j. j < length (columns df) \<longrightarrow> length (rows df) = 100 \<longrightarrow> count_null df j = 75 \<longrightarrow>
              columns df ! j \<in> set (columns out))"
proof -
  from pre_process_columns[OF assms(1,2)] obtain out where
    p: "pre_process fs = Inr (fs\<lparr>pre_processed_csv := Some out\<rparr>)" and
    c: "columns out = map (\<lambda>j. columns df ! j)
             (filter (\<lambda>j. length (rows df) \<le> 4 * count_non_null df j) [0..<length (columns df)])"
    by blast
  have m: "(columns df ! j \<notin> set (columns out)) = (4 * count_non_null df j < length (rows df))"
    if "j < length (columns df)" for j
    unfolding c nth_mem_map_filter[OF assms(3) that] by auto
  have "columns df ! j \<notin> set (columns out)"
    if "j < length (columns df)" "length (rows df) = 100" "count_null df j = 80" for j
    using m[OF that(1)] count_null_non_null[of df j] that(2,3) by simp
  moreover have "columns df ! j \<in> set (columns out)"
    if "j < length (columns df)" "length (rows df) = 100" "count_null df j = 70" for j
    using m[OF that(1)] count_null_non_null[of df j] that(2,3) by simp
  moreover have "columns df ! j \<in> set (columns out)"
    if "j < length (columns df)" "length (rows df) = 100" "count_null df j = 75" for j
    using m[OF that(1)] count_null_non_null[of df j] that(2,3) by simp
  ultimately show ?thesis using p m by blast
qed

text \<open>The table of a hundred rows loses column \<^verbatim>\<open>a\<close> and keeps column \<^verbatim>\<open>b\<close>.\<close>

theorem pre_process_drops_sparse_columns_witness:
  "processed_csv (no_files\<lparr>processed_csv := Some hundred_rows\<rparr>) = Some hundred_rows \<and>
   columns hundred_rows \<noteq> [] \<and> distinct (columns hundred_rows) \<and>
   length (rows hundred_rows) = 100 \<and>
   columns hundred_rows ! 0 = ''a'' \<and> count_null hundred_rows 0 = 80 \<and>
   columns hundred_rows ! 1 = ''b'' \<and> count_null hundred_rows 1 = 70 \<and>
   (\<exists>out. pre_process (no_files\<lparr>processed_csv := Some hundred_rows\<rparr>) =
            Inr (no_files\<lparr>processed_csv := Some hundred_rows, pre_processed_csv := Some out\<rparr>) \<and>
      ''a'' \<notin> set (columns out) \<and> ''b'' \<in> set (columns out))"
proof -
  let ?fs = "no_files\<lparr>processed_csv := Some hundred_rows\<rparr>"
  have f: "processed_csv ?fs = Some hundred_rows" by simp
  have c: "columns hundred_rows \<noteq> []" "distinct (columns hundred_rows)"
    "columns hundred_rows ! 0 = ''a''" "columns hundred_rows ! 1 = ''b''"
    "0 < length (columns hundred_rows)" "1 < length (columns hundred_rows)"
    by (simp_all add: hundred_rows_def)
  have n: "length (rows hundred_rows) = 100" by (simp add: hundred_rows_def)
  have a: "count_null hundred_rows 0 = 80" by (simp add: count_null_def hundred_rows_def)
  have b: "count_null hundred_rows 1 = 70" by (simp add: count_null_def hundred_rows_def)
  from pre_process_drops_sparse_columns[OF f c(1,2)] obtain out where
    p: "pre_process ?fs = Inr (?fs\<lparr>pre_processed_csv := Some out\<rparr>)"
    and d: "\<forall>j. j < length (columns hundred_rows) \<longrightarrow> length (rows hundred_rows) = 100 \<longrightarrow>
              count_null hundred_rows j = 80 \<longrightarrow> columns hundred_rows ! j \<notin> set (columns out)"
    and k: "\<forall>j. j < length (columns hundred_rows) \<longrightarrow> length (rows hundred_rows) = 100 \<longrightarrow>
              count_null hundred_rows j = 70 \<longrightarrow> columns hundred_rows ! j \<in> set (columns out)"
    by blast
  from d c(5) n a c(3) have "''a'' \<notin> set (columns out)" by metis
  moreover from k c(6) n b c(4) have "''b'' \<in> set (columns out)" by metis
  ultimately show ?thesis using f c n a b p by auto
qed

section \<open>A run of the pipeline\<close>

lemma drop_columns_aggregated_table:
  "drop_columns aggregated_table process_data_columns = Inr processed_table"
  by (simp add: drop_columns_def drop_cells_def aggregated_table_def aggregated_columns_def
      process_data_columns_def processed_table_def)

lemma process_data_sample:
  "aggregated_csv fs = Some aggregated_table \<Longrightarrow>
     process_data fs = Inr (fs\<lparr>processed_csv := Some processed_table\<rparr>)"
  by (simp add: process_data_def read_csv_def bind_result_def drop_columns_aggregated_table)
    (simp add: aggregated_table_def aggregated_columns_def)

lemma upt_8: "[0..<8] = [0, 1, 2, 3, 4, 5, 6, 7]"
  by (simp add: upt_rec)

lemma pre_process_sample:
  "processed_csv fs = Some processed_table \<Longrightarrow>
     pre_process fs = Inr (fs\<lparr>pre_processed_csv := Some processed_table\<rparr>)"
  by (simp add: pre_process_def read_csv_def bind_result_def Let_def dropna_columns_def
      dropna_rows_def drop_duplicates_def count_non_null_def processed_table_def upt_8)

lemma bind_result_InrE:
  assumes "bind_result m f = Inr y"
  obtains x where "m = Inr x" "f x = Inr y"
  using assms by (cases m) (auto simp: bind_result_def)

lemma aggregate_data_shape:
  assumes "aggregate_data fs = Inr fs'"
  shows "\<exists>df. fs' = fs\<lparr>aggregated_csv := Some df\<rparr>"
  using assms unfolding aggregate_data_def Let_def
  by (elim bind_result_InrE) auto

lemma process_data_shape:
  assumes "process_data fs = Inr fs'"
  shows "\<exists>df. fs' = fs\<lparr>processed_csv := Some df\<rparr>"
  using assms unfolding process_data_def
  by (elim bind_result_InrE) auto

lemma pre_process_shape:
  assumes "pre_process fs = Inr fs'"
  shows "\<exists>df. fs' = fs\<lparr>pre_processed_csv := Some df\<rparr>"
  using assms unfolding pre_process_def Let_def
  by (elim bind_result_InrE) auto

lemma load_log_cong: "log_txt a = log_txt b \<Longrightarrow> load_log a t = load_log b t"
  by (simp add: load_log_def)

lemma refresh_failed_log:
  assumes "refresh db fs now = (Some e, fs')"
  shows "log_txt fs' = log_txt fs"
proof -
  let ?ex = "bind_result (to_list db ''interactions'' data_length) (\<lambda>interactions.
        bind_result (to_list db ''customers'' data_length) (\<lambda>customers.
        bind_result (to_list db ''products'' data_length) (\<lambda>products.
        bind_result (to_list db ''prodoutCategory'' data_length) (\<lambda>prodoutCategory.
        Inr (fs\<lparr>interactions_csv := Some (DataFrame interactions),
                customers_csv := Some (DataFrame customers),
                products_csv := Some (DataFrame products),
                prodoutCategory_csv := Some (DataFrame prodoutCategory)\<rparr>)))))"
  show ?thesis
  proof (cases ?ex)
    case (Inl a)
    with assms show ?thesis by (simp add: refresh_def)
  next
    case (Inr fs1)
    then have l1: "log_txt fs1 = log_txt fs"
      by (elim bind_result_InrE) auto
    show ?thesis
    proof (cases "aggregate_data fs1")
      case (Inl a)
      with Inr assms l1 show ?thesis by (simp add: refresh_def)
    next
      case fs2: (Inr fs2)
      with aggregate_data_shape[OF fs2] l1 have l2: "log_txt fs2 = log_txt fs" by auto
      show ?thesis
      proof (cases "process_data fs2")
        case (Inl a)
        with Inr fs2 assms l2 show ?thesis by (simp add: refresh_def)
      next
        case fs3: (Inr fs3)
        with process_data_shape[OF fs3] l2 have l3: "log_txt fs3 = log_txt fs" by auto
        show ?thesis
        proof (cases "pre_process fs3")
          case (Inl a)
          with Inr fs2 fs3 assms l3 show ?thesis by (simp add: refresh_def)
        next
          case fs4: (Inr fs4)
          with Inr fs2 fs3 assms show ?thesis by (simp add: refresh_def)
        qed
      qed
    qed
  qed
qed

text \<open>
  Claim C8. When a run fails, the log file is what it was before the run, so
  \<open>load_log\<close> answers as before; the endpoint returns the error of the run.
\<close>

theorem failed_run_keeps_log:
  "(\<forall>e fs'. refresh db fs now = (Some e, fs') \<longrightarrow>
      log_txt fs' = log_txt fs \<and> (\<forall>t. load_log fs' t = load_log fs t) \<and>
      load_data db fs now = (Inl e, fs') \<and>
      get_recommendation_load get_rec db fs now user_id num_of_rec = (Inl e, fs') \<and>
      (load_log fs t_check = Inr True \<longrightarrow>
         get_recommendation_load_update get_rec db fs t_check now user_id num_of_rec =
           (Inl e, fs'))) \<and>
   (\<forall>e fs'. load_data db fs now = (Inl e, fs') \<longrightarrow> log_txt fs' = log_txt fs)"
proof (intro conjI allI impI)
  fix e fs' assume r: "refresh db fs now = (Some e, fs')"
  show l: "log_txt fs' = log_txt fs" by (rule refresh_failed_log[OF r])
  show "load_log fs' t = load_log fs t" for t by (rule load_log_cong[OF l])
  show "load_data db fs now = (Inl e, fs')" by (simp add: load_data_def r)
  show "get_recommendation_load get_rec db fs now user_id num_of_rec = (Inl e, fs')"
    by (simp add: get_recommendation_load_def r)
  show "get_recommendation_load_update get_rec db fs t_check now user_id num_of_rec = (Inl e, fs')"
    if "load_log fs t_check = Inr True"
    by (simp add: get_recommendation_load_update_def r that)
next
  fix e fs' assume "load_data db fs now = (Inl e, fs')"
  then have "refresh db fs now = (Some e, fs')"
    by (cases "refresh db fs now"; cases "fst (refresh db fs now)") (auto simp: load_data_def)
  then show "log_txt fs' = log_txt fs" by (rule refresh_failed_log)
qed

end
